theory Spec2Isabelle
  imports Complex_Main
begin

section \<open>Calibration comparison in \<open>te_metal_plots.py\<close>\<close>

text \<open>
  The development embeds the computational part of
  \<^verbatim>\<open>analysis/deep2_r23_o32/plotting/te_metal_plots.py\<close>: the three calibration
  functions, the selection of composite rows by their detection flag, and the pooled
  residual statistics of \<^verbatim>\<open>jiang_comparison\<close>.

  Python floats are idealised as the reals: rounding, overflow to infinity and NaN inputs
  are outside the model. The one NaN that finite inputs can produce, a statistic of an
  empty array, is kept as a value of its own. Reading the tables from disk, printing and
  plotting are left out.
\<close>

subsection \<open>The NumPy operations the module relies on\<close>

text \<open>
  The exceptions that the modelled statements can raise: NumPy's \<^verbatim>\<open>ValueError\<close>
  (operands that cannot be broadcast together, a coefficient array that is not
  one-dimensional) and \<^verbatim>\<open>IndexError\<close> (an index array reaching past the end).
\<close>

datatype py_error = ValueError | IndexError

definition bind_err :: "py_error + 'a \<Rightarrow> ('a \<Rightarrow> py_error + 'b) \<Rightarrow> py_error + 'b" where
  "bind_err r f = (case r of Inl e \<Rightarrow> Inl e | Inr v \<Rightarrow> f v)"

text \<open>
  A calibration argument is a Python float (or zero-dimensional value) or a
  one-dimensional \<^verbatim>\<open>ndarray\<close>, which is what the callers pass
  (\<^verbatim>\<open>column.data\<close>, possibly indexed by an index array).
\<close>

datatype ndarray = Scalar real | Array "real list"

text \<open>
  An element-wise binary operator with NumPy's broadcasting: a scalar combines with
  every element; two arrays combine element by element when their lengths agree, an
  array of length one is stretched to the other's length, and any other pair of
  lengths raises \<^verbatim>\<open>ValueError\<close>.
\<close>

fun broadcast2 :: "(real \<Rightarrow> real \<Rightarrow> real) \<Rightarrow> ndarray \<Rightarrow> ndarray \<Rightarrow> py_error + ndarray" where
  "broadcast2 f (Scalar a) (Scalar b) = Inr (Scalar (f a b))"
| "broadcast2 f (Scalar a) (Array ys) = Inr (Array (map (f a) ys))"
| "broadcast2 f (Array xs) (Scalar b) = Inr (Array (map (\<lambda>x. f x b) xs))"
| "broadcast2 f (Array xs) (Array ys) =
     (if length xs = length ys then Inr (Array (map2 f xs ys))
      else if length xs = 1 then Inr (Array (map (f (hd xs)) ys))
      else if length ys = 1 then Inr (Array (map (\<lambda>x. f x (hd ys)) xs))
      else Inl ValueError)"

definition np_add :: "ndarray \<Rightarrow> ndarray \<Rightarrow> py_error + ndarray" where
  "np_add = broadcast2 (+)"

definition np_sub :: "ndarray \<Rightarrow> ndarray \<Rightarrow> py_error + ndarray" where
  "np_sub = broadcast2 (-)"

definition np_mul :: "ndarray \<Rightarrow> ndarray \<Rightarrow> py_error + ndarray" where
  "np_mul = broadcast2 (*)"

text \<open>
  The argument of \<^verbatim>\<open>np.poly1d\<close> is a Python list literal, possibly nested.
  \<open>ndim\<close> is the number of dimensions of the array NumPy builds from it and
  \<open>ravel\<close> its elements in order.
\<close>

datatype array_like = Num real | Seq "array_like list"

fun ndim :: "array_like \<Rightarrow> nat" where
  "ndim (Num r) = 0"
| "ndim (Seq []) = 1"
| "ndim (Seq (x # xs)) = Suc (ndim x)"

fun ravel :: "array_like \<Rightarrow> real list" where
  "ravel (Num r) = [r]"
| "ravel (Seq xs) = concat (map ravel xs)"

definition atleast_1d :: "array_like \<Rightarrow> array_like" where
  "atleast_1d a = (if ndim a = 0 then Seq [a] else a)"

definition trim_zeros_f :: "real list \<Rightarrow> real list" where
  "trim_zeros_f c = dropWhile (\<lambda>x. x = 0) c"

text \<open>
  \<^verbatim>\<open>np.poly1d(c_or_r)\<close>, coefficients in decreasing powers:
  \<^verbatim>\<open>
    c_or_r = atleast_1d(c_or_r)
    if c_or_r.ndim > 1:
        raise ValueError("Polynomial must be 1d only.")
    c_or_r = trim_zeros(c_or_r, trim='f')
    if len(c_or_r) == 0:
        c_or_r = NX.array([0], dtype=c_or_r.dtype)
    self._coeffs = c_or_r
  \<close>
  The model of a \<^verbatim>\<open>poly1d\<close> object is its coefficient list.
\<close>

definition poly1d :: "array_like \<Rightarrow> py_error + real list" where
  "poly1d c_or_r =
     (let a = atleast_1d c_or_r in
      if ndim a > 1 then Inl ValueError
      else (let c = trim_zeros_f (ravel a) in
            Inr (if length c = 0 then [0] else c)))"

text \<open>
  Calling a \<^verbatim>\<open>poly1d\<close> is \<^verbatim>\<open>np.polyval\<close>, Horner's scheme applied
  to every element:
  \<^verbatim>\<open>
    y = NX.zeros_like(x)
    for pv in p:
        y = y * x + pv
  \<close>
\<close>

definition horner :: "real list \<Rightarrow> real \<Rightarrow> real" where
  "horner p x = foldl (\<lambda>y pv. y * x + pv) 0 p"

fun polyval :: "real list \<Rightarrow> ndarray \<Rightarrow> ndarray" where
  "polyval p (Scalar x) = Scalar (horner p x)"
| "polyval p (Array xs) = Array (map (horner p) xs)"

subsection \<open>The calibration functions\<close>

definition jiang_coeff :: "real list" where
  "jiang_coeff = [-24.135, 6.1532, -0.37866, -0.147, -7.071]"

definition bian_coeff :: "real list" where
  "bian_coeff = [138.0430, -54.8284, 7.2954, -0.32293]"

text \<open>
  \<^verbatim>\<open>
    p_jiang = np.poly1d([jiang_coeff[2], jiang_coeff[1], jiang_coeff[0]])
    shortcut = p_jiang(metal_det) + \
               jiang_coeff[3] * (jiang_coeff[4] + metal_det) * lo32
    return shortcut
  \<close>
\<close>

definition jiang_calibration :: "ndarray \<Rightarrow> ndarray \<Rightarrow> py_error + ndarray" where
  "jiang_calibration metal_det lo32 =
     bind_err (poly1d (Seq [Num (jiang_coeff ! 2), Num (jiang_coeff ! 1), Num (jiang_coeff ! 0)]))
       (\<lambda>p_jiang.
     bind_err (np_add (Scalar (jiang_coeff ! 4)) metal_det) (\<lambda>t1.
     bind_err (np_mul (Scalar (jiang_coeff ! 3)) t1) (\<lambda>t2.
     bind_err (np_mul t2 lo32) (\<lambda>t3.
     np_add (polyval p_jiang metal_det) t3))))"

text \<open>
  \<^verbatim>\<open>
    p_bian = np.poly1d([bian_coeff[::-1]])
    shortcut = p_bian(metal_det)
    return shortcut
  \<close>
  The reversed coefficient list is wrapped in one more list before it reaches
  \<^verbatim>\<open>np.poly1d\<close>.
\<close>

definition bian_calibration_r23 :: "ndarray \<Rightarrow> py_error + ndarray" where
  "bian_calibration_r23 metal_det =
     bind_err (poly1d (Seq [Seq (map Num (rev bian_coeff))]))
       (\<lambda>p_bian. Inr (polyval p_bian metal_det))"

text \<open>
  \<^verbatim>\<open>
    return (-1 / 0.59) * (metal_det - 8.54)
  \<close>
\<close>

definition bian_calibration_o32 :: "ndarray \<Rightarrow> py_error + ndarray" where
  "bian_calibration_o32 metal_det =
     bind_err (np_sub metal_det (Scalar 8.54)) (\<lambda>d.
     np_mul (Scalar (-1 / 0.59)) d)"

text \<open>
  The formula of \<^verbatim>\<open>jiang_calibration\<close>'s docstring, with the entries of
  \<^verbatim>\<open>jiang_coeff\<close> written out; the function above is compared with it.
\<close>

definition jiang_formula :: "real \<Rightarrow> real \<Rightarrow> real" where
  "jiang_formula m y =
     -24.135 + 6.1532 * m + (-0.37866) * m\<^sup>2 + (-0.147) * (-7.071 + m) * y"

subsection \<open>Selecting composite rows by detection flag\<close>

text \<open>
  \<^verbatim>\<open>valid == c\<close> on a column is the array of element-wise comparisons, and
  \<^verbatim>\<open>np.where(cond)[0]\<close> the indices of its true entries, ascending.
\<close>

definition np_equal :: "real list \<Rightarrow> real \<Rightarrow> bool list" where
  "np_equal a c = map (\<lambda>x. x = c) a"

fun nonzero_from :: "nat \<Rightarrow> bool list \<Rightarrow> nat list" where
  "nonzero_from i [] = []"
| "nonzero_from i (b # bs) =
     (if b then i # nonzero_from (Suc i) bs else nonzero_from (Suc i) bs)"

definition np_where :: "bool list \<Rightarrow> nat list" where
  "np_where cond = nonzero_from 0 cond"

text \<open>
  \<^verbatim>\<open>
    detect = np.where(valid == 1.0)[0]
    rlimit = np.where(valid == 0.5)[0]
  \<close>
  as in \<^verbatim>\<open>jiang_comparison\<close>, \<^verbatim>\<open>bian_comparison\<close> and
  (as \<^verbatim>\<open>ver_detect\<close>, \<^verbatim>\<open>ver_rlimit\<close>) \<^verbatim>\<open>plotting_te_metal\<close>.
\<close>

definition detect :: "real list \<Rightarrow> nat list" where
  "detect valid = np_where (np_equal valid 1.0)"

definition rlimit :: "real list \<Rightarrow> nat list" where
  "rlimit valid = np_where (np_equal valid 0.5)"

text \<open>
  \<^verbatim>\<open>a[idx]\<close> with an array of non-negative indices: the selected elements in the
  order of \<open>idx\<close>, or \<^verbatim>\<open>IndexError\<close> when an index is out of bounds.
\<close>

definition take_rows :: "'a list \<Rightarrow> nat list \<Rightarrow> py_error + 'a list" where
  "take_rows a idx =
     (if list_all (\<lambda>i. i < length a) idx then Inr (map (nth a) idx) else Inl IndexError)"

subsection \<open>Pooled residual statistics\<close>

text \<open>
  The result of a NumPy reduction of finitely many reals: a real, or NaN when the array
  is empty (NumPy warns and returns NaN; it does not raise).
\<close>

datatype np_float = Finite real | NaN

text \<open>
  \<^verbatim>\<open>np.median\<close>: the middle element of the sorted array, or the mean of the two
  middle elements when the length is even.
\<close>

definition np_median :: "real list \<Rightarrow> np_float" where
  "np_median a =
     (let n = length a; part = sort a in
      if n = 0 then NaN
      else if n mod 2 = 1 then Finite (part ! (n div 2))
      else Finite ((part ! (n div 2 - 1) + part ! (n div 2)) / 2))"

text \<open>\<^verbatim>\<open>np.average\<close> without weights is \<^verbatim>\<open>a.mean()\<close>.\<close>

definition np_average :: "real list \<Rightarrow> np_float" where
  "np_average a = (if length a = 0 then NaN else Finite (sum_list a / real (length a)))"

text \<open>
  \<^verbatim>\<open>np.std\<close> with the default \<^verbatim>\<open>ddof=0\<close>:
  \<^verbatim>\<open>
    arrmean = umr_sum(arr) / div          # div = N
    x = arr - arrmean
    x = umr_multiply(x, x)
    ret = umr_sum(x) / rcount             # rcount = max(N - ddof, 0)
    ret = sqrt(ret)
  \<close>
\<close>

definition np_std :: "real list \<Rightarrow> np_float" where
  "np_std a =
     (if length a = 0 then NaN
      else (let arrmean = sum_list a / real (length a);
                x = map (\<lambda>v. (v - arrmean) * (v - arrmean)) a
            in Finite (sqrt (sum_list x / real (length a)))))"

text \<open>\<^verbatim>\<open>np.concatenate(arrays, axis=None)\<close> flattens every array and joins them.\<close>

fun flatten :: "ndarray \<Rightarrow> real list" where
  "flatten (Scalar x) = [x]"
| "flatten (Array xs) = xs"

definition np_concatenate :: "ndarray list \<Rightarrow> real list" where
  "np_concatenate arrays = concat (map flatten arrays)"

record comparison =
  arr_sum :: "real list"
  med0 :: np_float
  avg0 :: np_float
  sig0 :: np_float

text \<open>
  The aggregation statements of \<^verbatim>\<open>jiang_comparison\<close> (and, with the same text,
  of \<^verbatim>\<open>bian_comparison\<close>):
  \<^verbatim>\<open>
    arr_sum = np.concatenate((A_comparison, B_comparison, C_comparison), axis=None)
    med0 = np.median(arr_sum)
    avg0 = np.average(arr_sum)
    sig0 = np.std(arr_sum)
  \<close>
\<close>

definition pooled_statistics :: "ndarray list \<Rightarrow> comparison" where
  "pooled_statistics comparisons =
     (let a = np_concatenate comparisons in
      \<lparr>arr_sum = a, med0 = np_median a, avg0 = np_average a, sig0 = np_std a\<rparr>)"

subsection \<open>\<^verbatim>\<open>jiang_comparison\<close>\<close>

text \<open>
  The rows of \<^verbatim>\<open>bin_derived_properties.tbl\<close> and of the two catalogues of
  individual spectra, with the columns the function reads. The validation table is
  represented by its \<^verbatim>\<open>Detection\<close> column.
\<close>

record composite_row =
  bin_ID :: nat
  logR23_Composite :: real
  logO32_Composite :: real
  log_OH_12 :: real

record derived_row =
  R23 :: real
  O32 :: real
  OH :: real

text \<open>
  \<^verbatim>\<open>np.log10\<close> of a positive ratio. (For a ratio that is not positive NumPy
  yields NaN or minus infinity, which the reals do not have; no statement below depends
  on the value of a logarithm.)
\<close>

definition np_log10 :: "real list \<Rightarrow> real list" where
  "np_log10 a = map (log 10) a"

text \<open>
  The function from the tables it reads to the pooled residuals and their statistics,
  statement by statement; the figure it draws afterwards is left out.
\<close>

definition jiang_comparison ::
  "real list \<Rightarrow> composite_row list \<Rightarrow> derived_row list \<Rightarrow> derived_row list
     \<Rightarrow> py_error + comparison" where
  "jiang_comparison validation temp_tab derived derived_mact =
     (let bin_id = map bin_ID temp_tab;
          lr23_comp = map logR23_Composite temp_tab;
          lo32_comp = map logO32_Composite temp_tab;
          zmetal = map log_OH_12 temp_tab;
          valid = validation
      in
      bind_err (take_rows bin_id (detect valid)) (\<lambda>valid_id.
      bind_err (take_rows lr23_comp (detect valid)) (\<lambda>lR23.
      bind_err (take_rows lo32_comp (detect valid)) (\<lambda>lO32.
      bind_err (take_rows lr23_comp (rlimit valid)) (\<lambda>rlr23.
      bind_err (take_rows lo32_comp (rlimit valid)) (\<lambda>rlo32.
      bind_err (take_rows zmetal (detect valid)) (\<lambda>metal_det.
      bind_err (take_rows zmetal (rlimit valid)) (\<lambda>metal_rl.
      (let der_r23 = np_log10 (map R23 derived);
           der_o32 = np_log10 (map O32 derived);
           der_oh = map OH derived;
           der_r23_mact = np_log10 (map R23 derived_mact);
           der_o32_mact = np_log10 (map O32 derived_mact);
           der_oh_mact = map OH derived_mact
       in
       bind_err (jiang_calibration (Array metal_det) (Array lO32)) (\<lambda>jR23_det.
       bind_err (np_sub jR23_det (Array lR23)) (\<lambda>A_comparison.
       bind_err (jiang_calibration (Array der_oh) (Array der_o32)) (\<lambda>jR23_DEEP.
       bind_err (jiang_calibration (Array der_oh_mact) (Array der_o32_mact)) (\<lambda>jR23_MACT.
       bind_err (np_sub jR23_DEEP (Array der_r23)) (\<lambda>B_comparison.
       bind_err (np_sub jR23_MACT (Array der_r23_mact)) (\<lambda>C_comparison.
       Inr (pooled_statistics [A_comparison, B_comparison, C_comparison]))))))))))))))))"

text \<open>
  The residual (predicted minus observed) of one composite row and of one row of a
  catalogue of individual spectra, written with \<open>jiang_formula\<close>; they state what
  the pooled array of \<open>jiang_comparison\<close> holds.
\<close>

definition composite_residual :: "composite_row \<Rightarrow> real" where
  "composite_residual r =
     jiang_formula (log_OH_12 r) (logO32_Composite r) - logR23_Composite r"

definition derived_residual :: "derived_row \<Rightarrow> real" where
  "derived_residual r = jiang_formula (OH r) (log 10 (O32 r)) - log 10 (R23 r)"

section \<open>Properties\<close>

subsection \<open>Broadcasting\<close>

lemma broadcast2_stretch_left:
  "broadcast2 f (Array [a]) (Array ys) = Inr (Array (map (f a) ys))"
proof (cases ys)
  case Nil
  then show ?thesis by simp
next
  case (Cons y ys')
  then show ?thesis by (cases ys') simp_all
qed

lemma broadcast2_stretch_right:
  "broadcast2 f (Array xs) (Array [b]) = Inr (Array (map (\<lambda>x. f x b) xs))"
proof (cases xs)
  case Nil
  then show ?thesis by simp
next
  case (Cons x xs')
  then show ?thesis by (cases xs') simp_all
qed

lemma broadcast2_same_length:
  "length xs = length ys \<Longrightarrow> broadcast2 f (Array xs) (Array ys) = Inr (Array (map2 f xs ys))"
  by simp

lemma np_sub_same_length:
  "length xs = length ys \<Longrightarrow> np_sub (Array xs) (Array ys) = Inr (Array (map2 (-) xs ys))"
  by (simp add: np_sub_def)

subsection \<open>The Jiang calibration\<close>

lemma poly1d_jiang:
  "poly1d (Seq [Num (jiang_coeff ! 2), Num (jiang_coeff ! 1), Num (jiang_coeff ! 0)])
     = Inr [-0.37866, 6.1532, -24.135]"
  by (simp add: poly1d_def atleast_1d_def trim_zeros_f_def jiang_coeff_def)

lemma horner_jiang:
  "horner [-0.37866, 6.1532, -24.135] m + (-0.147) * (-7.071 + m) * y = jiang_formula m y"
  by (simp add: horner_def jiang_formula_def power2_eq_square algebra_simps)

lemma jiang_formula_coeff:
  "jiang_formula m y =
     jiang_coeff ! 0 + jiang_coeff ! 1 * m + jiang_coeff ! 2 * m\<^sup>2
       + jiang_coeff ! 3 * (jiang_coeff ! 4 + m) * y"
  by (simp add: jiang_formula_def jiang_coeff_def)

lemma jiang_unfold:
  "jiang_calibration metal_det lo32 =
     bind_err (np_add (Scalar (-7.071)) metal_det) (\<lambda>t1.
     bind_err (np_mul (Scalar (-0.147)) t1) (\<lambda>t2.
     bind_err (np_mul t2 lo32) (\<lambda>t3.
     np_add (polyval [-0.37866, 6.1532, -24.135] metal_det) t3)))"
  unfolding jiang_calibration_def poly1d_jiang
  by (simp add: bind_err_def jiang_coeff_def)

lemma jiang_scalar:
  "jiang_calibration (Scalar m) (Scalar y) = Inr (Scalar (jiang_formula m y))"
  unfolding jiang_unfold horner_jiang [symmetric]
  by (simp add: bind_err_def np_add_def np_mul_def)

lemma jiang_zip:
  "length ms = length ys \<Longrightarrow>
   map2 (+) (map (horner [-0.37866, 6.1532, -24.135]) ms)
     (map2 (*) (map ((*) (-0.147)) (map ((+) (-7.071)) ms)) ys)
   = map2 jiang_formula ms ys"
proof (induction ms ys rule: list_induct2)
  case Nil
  then show ?case by simp
next
  case (Cons m ms y ys)
  then show ?case using horner_jiang [of m y] by simp
qed

lemma jiang_array:
  "length ms = length ys \<Longrightarrow>
   jiang_calibration (Array ms) (Array ys) = Inr (Array (map2 jiang_formula ms ys))"
  unfolding jiang_unfold
  using jiang_zip [of ms ys]
  by (simp add: bind_err_def np_add_def np_mul_def)

lemma jiang_mismatch:
  "length ms \<noteq> length ys \<Longrightarrow> length ms \<noteq> 1 \<Longrightarrow> length ys \<noteq> 1 \<Longrightarrow>
   jiang_calibration (Array ms) (Array ys) = Inl ValueError"
  unfolding jiang_unfold
  by (simp add: bind_err_def np_add_def np_mul_def)

lemma jiang_stretch_left:
  "jiang_calibration (Array [m]) (Array ys) = Inr (Array (map (jiang_formula m) ys))"
proof -
  have "map ((+) (horner [-0.37866, 6.1532, -24.135] m)) (map ((*) (-0.147 * (-7.071 + m))) ys)
        = map (jiang_formula m) ys"
    using horner_jiang [of m] by simp
  then show ?thesis
    unfolding jiang_unfold
    by (simp add: bind_err_def np_add_def np_mul_def broadcast2_stretch_left
        del: broadcast2.simps(4))
qed

lemma jiang_stretch_right:
  "jiang_calibration (Array ms) (Array [y]) = Inr (Array (map (\<lambda>m. jiang_formula m y) ms))"
proof -
  have "map2 (+) (map (horner [-0.37866, 6.1532, -24.135]) ms)
          (map (\<lambda>x. x * y) (map ((*) (-0.147)) (map ((+) (-7.071)) ms)))
        = map (\<lambda>m. jiang_formula m y) ms"
    using horner_jiang [of _ y] by (induction ms) simp_all
  then show ?thesis
    unfolding jiang_unfold
    by (simp add: bind_err_def np_add_def np_mul_def broadcast2_stretch_right
        broadcast2_same_length del: broadcast2.simps(4))
qed

lemma jiang_second_diff:
  "jiang_formula (m + 2 * h) y - 2 * jiang_formula (m + h) y + jiang_formula m y
     = 2 * (jiang_coeff ! 2) * h\<^sup>2"
  by (simp add: jiang_formula_def jiang_coeff_def power2_eq_square field_simps)

text \<open>
  C2. For a pair of scalars, and for a pair of arrays of equal length element by element,
  \<open>jiang_calibration\<close> returns
  \<open>c0 + c1 * m + c2 * m\<^sup>2 + c3 * (c4 + m) * y\<close> with
  \<open>c0 = -24.135\<close>, \<open>c1 = 6.1532\<close>, \<open>c2 = -0.37866\<close>, \<open>c3 = -0.147\<close>,
  \<open>c4 = -7.071\<close>.
\<close>

theorem jiang_calibration_formula:
  "jiang_calibration (Scalar m) (Scalar y)
     = Inr (Scalar (-24.135 + 6.1532 * m + (-0.37866) * m\<^sup>2 + (-0.147) * (-7.071 + m) * y))
   \<and> (length ms = length ys \<longrightarrow>
        jiang_calibration (Array ms) (Array ys)
          = Inr (Array (map2 (\<lambda>m y. -24.135 + 6.1532 * m + (-0.37866) * m\<^sup>2
                                      + (-0.147) * (-7.071 + m) * y) ms ys)))"
proof -
  have f: "jiang_formula
      = (\<lambda>m y. -24.135 + 6.1532 * m + (-0.37866) * m\<^sup>2 + (-0.147) * (-7.071 + m) * y)"
    by (intro ext) (simp only: jiang_formula_def)
  show ?thesis
    using jiang_scalar [of m y] jiang_array [of ms ys] unfolding f by blast
qed

theorem jiang_calibration_formula_witness:
  "length [8, 8.5 :: real] = length [0.5, 0.3 :: real]
   \<and> jiang_calibration (Array [8, 8.5]) (Array [0.5, 0.3])
       = Inr (Array [1576157 / 2000000, 7459961 / 10000000])"
  using jiang_calibration_formula [of 8 "0.5" "[8, 8.5]" "[0.5, 0.3]"]
  by (simp add: power2_eq_square)

text \<open>
  C9. For fixed \<open>y\<close> and step \<open>h\<close> the second difference in \<open>m\<close> of
  \<open>jiang_calibration\<close> is \<open>2 * c2 * h\<^sup>2\<close>, whatever \<open>m\<close> and \<open>y\<close> are.
\<close>

theorem jiang_second_difference:
  "\<exists>a0 a1 a2.
      jiang_calibration (Scalar m) (Scalar y) = Inr (Scalar a0)
    \<and> jiang_calibration (Scalar (m + h)) (Scalar y) = Inr (Scalar a1)
    \<and> jiang_calibration (Scalar (m + 2 * h)) (Scalar y) = Inr (Scalar a2)
    \<and> a2 - 2 * a1 + a0 = 2 * (jiang_coeff ! 2) * h\<^sup>2"
  using jiang_second_diff [of m h y] by (simp add: jiang_scalar)

text \<open>
  C7, as the code has it. The function checks no lengths itself; NumPy's broadcasting
  decides. Arrays of unequal length raise \<^verbatim>\<open>ValueError\<close>, with no result, when
  neither has length one; an array of length one is combined with every element of the
  other.
\<close>

theorem jiang_length_mismatch:
  "(length ms \<noteq> length ys \<and> length ms \<noteq> 1 \<and> length ys \<noteq> 1 \<longrightarrow>
      jiang_calibration (Array ms) (Array ys) = Inl ValueError)
   \<and> jiang_calibration (Array [m]) (Array ys) = Inr (Array (map (jiang_formula m) ys))
   \<and> jiang_calibration (Array ms) (Array [y]) = Inr (Array (map (\<lambda>m. jiang_formula m y) ms))"
  using jiang_mismatch [of ms ys] jiang_stretch_left [of m ys] jiang_stretch_right [of ms y]
  by blast

theorem jiang_length_mismatch_witness:
  "length [8, 8.5, 9 :: real] \<noteq> length [0.5, 0.3 :: real]
   \<and> length [8, 8.5, 9 :: real] \<noteq> 1 \<and> length [0.5, 0.3 :: real] \<noteq> 1
   \<and> jiang_calibration (Array [8, 8.5, 9]) (Array [0.5, 0.3]) = Inl ValueError"
  using jiang_length_mismatch [of "[8, 8.5, 9]" "[0.5, 0.3]"]
  by simp

text \<open>
  C7, as stated, fails: a metallicity array of length one and a \<open>log_o32\<close> array of
  length two have unequal lengths, and the call returns a two-element result.
\<close>

theorem jiang_broadcasts_length_one:
  "length [8 :: real] \<noteq> length [0.5, 0.3 :: real]
   \<and> jiang_calibration (Array [8]) (Array [0.5, 0.3])
       = Inr (Array [1576157 / 2000000, 8153911 / 10000000])"
  by (simp add: jiang_stretch_left jiang_formula_def)

subsection \<open>The Bian calibrations\<close>

lemma poly1d_bian:
  "poly1d (Seq [Seq (map Num (rev bian_coeff))]) = Inl ValueError"
  by (simp add: poly1d_def atleast_1d_def bian_coeff_def)

text \<open>
  Without the extra pair of brackets the coefficient list would be accepted, and the
  polynomial would be the cubic of the docstring.
\<close>

lemma poly1d_bian_flat:
  "poly1d (Seq (map Num (rev bian_coeff))) = Inr [-0.32293, 7.2954, -54.8284, 138.0430]"
  by (simp add: poly1d_def atleast_1d_def trim_zeros_f_def bian_coeff_def)

lemma horner_bian:
  "horner [-0.32293, 7.2954, -54.8284, 138.0430] m
     = 138.0430 + (-54.8284) * m + 7.2954 * m\<^sup>2 + (-0.32293) * m ^ 3"
  by (simp add: horner_def power2_eq_square power3_eq_cube algebra_simps)

lemma bian_o32_scalar:
  "bian_calibration_o32 (Scalar m) = Inr (Scalar (- (m - 8.54) / 0.59))"
  by (simp add: bian_calibration_o32_def bind_err_def np_sub_def np_mul_def field_simps)

lemma bian_o32_array:
  "bian_calibration_o32 (Array ms) = Inr (Array (map (\<lambda>m. - (m - 8.54) / 0.59) ms))"
  by (simp add: bian_calibration_o32_def bind_err_def np_sub_def np_mul_def field_simps)

text \<open>
  C1 states that \<open>bian_calibration_r23\<close> returns the cubic
  \<open>d0 + d1 * m + d2 * m\<^sup>2 + d3 * m ^ 3\<close>, as the docstring does. The function does
  not: \<^verbatim>\<open>np.poly1d\<close> is given the reversed coefficients inside a second list, a
  two-dimensional array, and raises \<^verbatim>\<open>ValueError\<close> before anything is evaluated,
  whatever the argument.
\<close>

theorem bian_calibration_r23_raises:
  "bian_calibration_r23 metal_det = Inl ValueError"
  by (simp add: bian_calibration_r23_def poly1d_bian bind_err_def)

text \<open>
  C5. For every real \<open>m\<close>, \<open>bian_calibration_o32\<close> returns \<open>-(m - 8.54) / 0.59\<close>,
  element by element on an array: a linear function of slope \<open>-1 / 0.59\<close>, with value
  \<open>0\<close> at \<open>m = 8.54\<close>.
\<close>

theorem bian_calibration_o32_linear:
  "bian_calibration_o32 (Scalar m) = Inr (Scalar (- (m - 8.54) / 0.59))
   \<and> bian_calibration_o32 (Array ms) = Inr (Array (map (\<lambda>m. - (m - 8.54) / 0.59) ms))
   \<and> - (m - 8.54) / 0.59 = (- 1 / 0.59) * m + 8.54 / 0.59
   \<and> bian_calibration_o32 (Scalar 8.54) = Inr (Scalar 0)"
  by (simp add: bian_calibration_o32_def bind_err_def np_sub_def np_mul_def field_simps)

text \<open>
  C8 states that all three calibration functions return a value for every real input.
  \<open>jiang_calibration\<close> and \<open>bian_calibration_o32\<close> do;
  \<open>bian_calibration_r23\<close> raises \<^verbatim>\<open>ValueError\<close> for every input, within and
  outside the range from 6 to 10.
\<close>

theorem calibrations_defined_except_bian_r23:
  "(\<exists>v. jiang_calibration (Scalar m) (Scalar y) = Inr (Scalar v))
   \<and> (\<exists>v. bian_calibration_o32 (Scalar m) = Inr (Scalar v))
   \<and> (\<exists>vs. bian_calibration_o32 (Array ms) = Inr (Array vs))
   \<and> bian_calibration_r23 (Scalar m) = Inl ValueError
   \<and> bian_calibration_r23 (Array ms) = Inl ValueError"
proof -
  have "bian_calibration_r23 a = Inl ValueError" for a
    by (simp add: bian_calibration_r23_def poly1d_bian bind_err_def)
  then show ?thesis
    using jiang_scalar [of m y] bian_o32_scalar [of m] bian_o32_array [of ms] by blast
qed

subsection \<open>Selection by detection flag\<close>

lemma nonzero_from_filter:
  "nonzero_from i bs = map (\<lambda>j. j + i) (filter (\<lambda>j. bs ! j) [0..<length bs])"
proof (induction bs arbitrary: i)
  case Nil
  then show ?case by simp
next
  case (Cons b bs)
  have upt: "[0..<length (b # bs)] = 0 # map Suc [0..<length bs]"
    by (simp add: upt_conv_Cons map_Suc_upt del: upt_Suc)
  show ?case
    unfolding upt by (simp add: Cons.IH filter_map comp_def)
qed

lemma np_where_equal:
  "np_where (np_equal a c) = filter (\<lambda>i. a ! i = c) [0..<length a]"
proof -
  have "filter (\<lambda>j. map (\<lambda>x. x = c) a ! j) [0..<length a] = filter (\<lambda>i. a ! i = c) [0..<length a]"
    by (rule filter_cong) simp_all
  then show ?thesis
    by (simp add: np_where_def np_equal_def nonzero_from_filter)
qed

lemma detect_filter: "detect valid = filter (\<lambda>i. valid ! i = 1) [0..<length valid]"
  by (simp add: detect_def np_where_equal)

lemma rlimit_filter: "rlimit valid = filter (\<lambda>i. valid ! i = 1/2) [0..<length valid]"
  by (simp add: rlimit_def np_where_equal)

lemma detect_bound: "i \<in> set (detect valid) \<Longrightarrow> i < length valid"
  by (simp add: detect_filter)

lemma rlimit_bound: "i \<in> set (rlimit valid) \<Longrightarrow> i < length valid"
  by (simp add: rlimit_filter)

text \<open>
  C6. When every flag is 0, 0.5 or 1, \<open>detect\<close> holds the indices of the rows with flag
  1 and \<open>rlimit\<close> those with flag 0.5; the two are disjoint, lie among the row indices,
  leave out exactly the rows with flag 0, and are in increasing (row) order. For the
  flags \<open>[1, 0.5, 0, 1, 0.5]\<close> they are \<open>[0, 3]\<close> and \<open>[1, 4]\<close>.
\<close>

theorem selection_partition:
  assumes "set valid \<subseteq> {0, 1/2, 1}"
  shows "set (detect valid) = {i. i < length valid \<and> valid ! i = 1}
       \<and> set (rlimit valid) = {i. i < length valid \<and> valid ! i = 1/2}
       \<and> set (detect valid) \<inter> set (rlimit valid) = {}
       \<and> set (detect valid) \<union> set (rlimit valid) \<subseteq> {i. i < length valid}
       \<and> set (detect valid) \<union> set (rlimit valid) = {i. i < length valid \<and> valid ! i \<noteq> 0}
       \<and> sorted_wrt (<) (detect valid) \<and> sorted_wrt (<) (rlimit valid)
       \<and> detect [1, 1/2, 0, 1, 1/2] = [0, 3] \<and> rlimit [1, 1/2, 0, 1, 1/2] = [1, 4]"
proof -
  have d: "set (detect valid) = {i. i < length valid \<and> valid ! i = 1}"
    by (auto simp add: detect_filter)
  have r: "set (rlimit valid) = {i. i < length valid \<and> valid ! i = 1/2}"
    by (auto simp add: rlimit_filter)
  have dis: "set (detect valid) \<inter> set (rlimit valid) = {}"
    unfolding d r by auto
  have sub: "set (detect valid) \<union> set (rlimit valid) \<subseteq> {i. i < length valid}"
    unfolding d r by auto
  have flag: "valid ! i = 0 \<or> valid ! i = 1/2 \<or> valid ! i = 1" if "i < length valid" for i
  proof -
    from that have "valid ! i \<in> set valid" by (rule nth_mem)
    with assms have "valid ! i \<in> {0, 1/2, 1}" by (rule subsetD)
    then show ?thesis by simp
  qed
  have u: "set (detect valid) \<union> set (rlimit valid) = {i. i < length valid \<and> valid ! i \<noteq> 0}"
  proof (rule set_eqI)
    fix i
    show "i \<in> set (detect valid) \<union> set (rlimit valid)
        \<longleftrightarrow> i \<in> {i. i < length valid \<and> valid ! i \<noteq> 0}"
    proof (cases "i < length valid")
      case True
      from flag [OF True] show ?thesis unfolding d r using True by auto
    next
      case False
      then show ?thesis unfolding d r by simp
    qed
  qed
  have s1: "sorted_wrt (<) (detect valid)"
    unfolding detect_filter by (rule sorted_wrt_filter) simp
  have s2: "sorted_wrt (<) (rlimit valid)"
    unfolding rlimit_filter by (rule sorted_wrt_filter) simp
  have e1: "detect [1, 1/2, 0, 1, 1/2] = [0, 3]"
    by (simp add: detect_def np_where_def np_equal_def)
  have e2: "rlimit [1, 1/2, 0, 1, 1/2] = [1, 4]"
    by (simp add: rlimit_def np_where_def np_equal_def)
  from d r dis sub u s1 s2 e1 e2 show ?thesis
    by (intro conjI)
qed

theorem selection_partition_witness:
  "set [1, 1/2, 0, 1, 1/2 :: real] \<subseteq> {0, 1/2, 1}
   \<and> set (detect [1, 1/2, 0, 1, 1/2]) = {0, 3}
   \<and> set (rlimit [1, 1/2, 0, 1, 1/2]) = {1, 4}
   \<and> 2 \<notin> set (detect [1, 1/2, 0, 1, 1/2]) \<union> set (rlimit [1, 1/2, 0, 1, 1/2])"
proof -
  have h: "set [1, 1/2, 0, 1, 1/2 :: real] \<subseteq> {0, 1/2, 1}" by simp
  from selection_partition [OF h] show ?thesis using h by simp
qed

text \<open>
  C3, as the code has it. The flag column is never validated and the selection cannot
  fail: a row whose flag is neither 1 nor 0.5, be it 0 or any other value, is in neither
  index array.
\<close>

theorem unrecognised_flag_excluded:
  "i < length valid \<Longrightarrow> valid ! i \<noteq> 1 \<Longrightarrow> valid ! i \<noteq> 1/2 \<Longrightarrow>
   i \<notin> set (detect valid) \<and> i \<notin> set (rlimit valid)"
  by (simp add: detect_filter rlimit_filter)

theorem unrecognised_flag_excluded_witness:
  "(1::nat) < length [1, 0.3 :: real] \<and> [1, 0.3 :: real] ! 1 \<noteq> 1 \<and> [1, 0.3 :: real] ! 1 \<noteq> 1/2
   \<and> 1 \<notin> set (detect [1, 0.3]) \<and> 1 \<notin> set (rlimit [1, 0.3])"
  using unrecognised_flag_excluded [of 1 "[1, 0.3]"]
  by simp

text \<open>
  C3, as stated, fails: for the flags \<open>[1, 0.3]\<close> nothing is raised. The row with flag
  0.3 is left out of both index arrays and \<open>jiang_comparison\<close> returns the statistics
  of the one remaining residual.
\<close>

theorem invalid_flag_not_rejected:
  "detect [1, 0.3] = [0] \<and> rlimit [1, 0.3] = []
   \<and> jiang_comparison [1, 0.3]
        [\<lparr>bin_ID = 0, logR23_Composite = 0, logO32_Composite = 0.5, log_OH_12 = 8\<rparr>,
         \<lparr>bin_ID = 1, logR23_Composite = 0, logO32_Composite = 0.3, log_OH_12 = 8.5\<rparr>] [] []
       = Inr \<lparr>arr_sum = [1576157 / 2000000], med0 = Finite (1576157 / 2000000),
              avg0 = Finite (1576157 / 2000000), sig0 = Finite 0\<rparr>"
proof -
  have d: "detect [1, 0.3] = [0]"
    by (simp add: detect_def np_where_def np_equal_def)
  have r: "rlimit [1, 0.3] = []"
    by (simp add: rlimit_def np_where_def np_equal_def)
  show ?thesis
    unfolding jiang_comparison_def Let_def d r
    by (simp add: d r take_rows_def bind_err_def np_log10_def jiang_array np_sub_def
        pooled_statistics_def np_concatenate_def np_median_def np_average_def np_std_def
        jiang_formula_def)
qed

subsection \<open>Pooled statistics\<close>

lemma sum_list_sq_nonneg: "0 \<le> (\<Sum>x\<leftarrow>a. (x - c) * (x - c :: real))"
  by (rule sum_list_nonneg) auto

lemma sqrt_mean_square:
  "0 \<le> v \<Longrightarrow> n \<noteq> 0 \<Longrightarrow> (sqrt (v / real n))\<^sup>2 * real n = v"
  by simp

lemma median_unified:
  assumes "a \<noteq> []"
  shows "np_median a = Finite ((sort a ! ((length a - 1) div 2) + sort a ! (length a div 2)) / 2)"
proof (cases "length a mod 2 = 1")
  case True
  then have "(length a - 1) div 2 = length a div 2" by presburger
  with True assms show ?thesis by (simp add: np_median_def Let_def)
next
  case False
  with assms have "length a mod 2 = 0" "0 < length a" by simp_all
  then have "(length a - 1) div 2 = length a div 2 - 1" by presburger
  with False assms show ?thesis by (simp add: np_median_def Let_def)
qed

text \<open>
  C4. The residual arrays of the data sets are concatenated into one pooled array
  \<open>a\<close> of length \<open>n\<close>, and the statistics are those of the pooled array: the median
  (the middle of the sorted array, the mean of the two middle elements when \<open>n\<close> is
  even), the arithmetic mean \<open>\<mu> = sum a / n\<close>, and the population standard deviation
  \<open>\<sigma> \<ge> 0\<close> with \<open>\<sigma>\<^sup>2 * n = sum (x - \<mu>)\<^sup>2\<close> (denominator \<open>n\<close>, not \<open>n - 1\<close>).
  For the residuals \<open>[0, 1, 2]\<close> and \<open>[1]\<close> the pooled array is \<open>[0, 1, 2, 1]\<close>, with
  median 1, mean 1 and standard deviation \<open>sqrt (1/2)\<close>.
\<close>

theorem pooled_statistics_spec:
  assumes "np_concatenate comparisons \<noteq> []"
  shows "arr_sum (pooled_statistics comparisons) = concat (map flatten comparisons)
    \<and> (let a = concat (map flatten comparisons); n = length a; s = sort a;
            \<mu> = sum_list a / real n in
        med0 (pooled_statistics comparisons) = Finite ((s ! ((n - 1) div 2) + s ! (n div 2)) / 2)
      \<and> avg0 (pooled_statistics comparisons) = Finite \<mu>
      \<and> (\<exists>\<sigma>. sig0 (pooled_statistics comparisons) = Finite \<sigma> \<and> 0 \<le> \<sigma>
              \<and> \<sigma>\<^sup>2 * real n = (\<Sum>x\<leftarrow>a. (x - \<mu>)\<^sup>2)))
    \<and> pooled_statistics [Array [0, 1, 2], Array [1]]
        = \<lparr>arr_sum = [0, 1, 2, 1], med0 = Finite 1, avg0 = Finite 1, sig0 = Finite (sqrt (1/2))\<rparr>"
proof -
  let ?a = "concat (map flatten comparisons)"
  let ?n = "length ?a"
  let ?\<mu> = "sum_list ?a / real ?n"
  from assms have ne: "?a \<noteq> []" by (simp add: np_concatenate_def)
  then have n0: "?n \<noteq> 0" by simp
  have arr: "arr_sum (pooled_statistics comparisons) = ?a"
    by (simp add: pooled_statistics_def np_concatenate_def Let_def)
  have med: "med0 (pooled_statistics comparisons)
      = Finite ((sort ?a ! ((?n - 1) div 2) + sort ?a ! (?n div 2)) / 2)"
    using median_unified [OF ne] by (simp add: pooled_statistics_def np_concatenate_def Let_def)
  have avg: "avg0 (pooled_statistics comparisons) = Finite ?\<mu>"
    using n0 by (simp add: pooled_statistics_def np_concatenate_def Let_def np_average_def)
  let ?v = "(\<Sum>x\<leftarrow>?a. (x - ?\<mu>) * (x - ?\<mu>))"
  have sig: "sig0 (pooled_statistics comparisons) = Finite (sqrt (?v / real ?n))"
    using n0 by (simp add: pooled_statistics_def np_concatenate_def Let_def np_std_def)
  have vpos: "0 \<le> ?v / real ?n"
    using sum_list_sq_nonneg [of ?\<mu> ?a] by simp
  have sq: "(sqrt (?v / real ?n))\<^sup>2 * real ?n = (\<Sum>x\<leftarrow>?a. (x - ?\<mu>)\<^sup>2)"
  proof -
    have "0 \<le> ?v" by (rule sum_list_sq_nonneg)
    then have "(sqrt (?v / real ?n))\<^sup>2 * real ?n = ?v"
      using n0 by (rule sqrt_mean_square)
    then show ?thesis by (simp only: power2_eq_square)
  qed
  have ex: "pooled_statistics [Array [0, 1, 2], Array [1]]
        = \<lparr>arr_sum = [0, 1, 2, 1], med0 = Finite 1, avg0 = Finite 1, sig0 = Finite (sqrt (1/2))\<rparr>"
    by (simp add: pooled_statistics_def np_concatenate_def Let_def np_median_def
        np_average_def np_std_def)
  have "\<exists>\<sigma>. sig0 (pooled_statistics comparisons) = Finite \<sigma> \<and> 0 \<le> \<sigma>
              \<and> \<sigma>\<^sup>2 * real ?n = (\<Sum>x\<leftarrow>?a. (x - ?\<mu>)\<^sup>2)"
    using sig sq vpos by (intro exI [of _ "sqrt (?v / real ?n)"]) simp
  with arr med avg ex show ?thesis
    unfolding Let_def by blast
qed

theorem pooled_statistics_spec_witness:
  "np_concatenate [Array [0, 1, 2], Array [1]] \<noteq> []
   \<and> np_sub (Array [1, 2, 3]) (Array [1, 1, 1]) = Inr (Array [0, 1, 2])
   \<and> np_sub (Array [5]) (Array [4]) = Inr (Array [1])
   \<and> arr_sum (pooled_statistics [Array [0, 1, 2], Array [1]]) = [0, 1, 2, 1]
   \<and> med0 (pooled_statistics [Array [0, 1, 2], Array [1]]) = Finite 1
   \<and> avg0 (pooled_statistics [Array [0, 1, 2], Array [1]]) = Finite 1
   \<and> sig0 (pooled_statistics [Array [0, 1, 2], Array [1]]) = Finite (sqrt (1/2))"
proof -
  have h: "np_concatenate [Array [0, 1, 2], Array [1]] \<noteq> []"
    by (simp add: np_concatenate_def)
  from pooled_statistics_spec [OF h] show ?thesis
    using h by (simp add: np_sub_def)
qed

subsection \<open>The pooled residuals of \<open>jiang_comparison\<close>\<close>

lemma take_rows_map:
  "take_rows (map f tab) idx =
     (if list_all (\<lambda>i. i < length tab) idx then Inr (map (\<lambda>i. f (tab ! i)) idx)
      else Inl IndexError)"
proof (cases "list_all (\<lambda>i. i < length tab) idx")
  case True
  then have "map (nth (map f tab)) idx = map (\<lambda>i. f (tab ! i)) idx"
    by (intro map_cong) (simp_all add: list_all_iff)
  with True show ?thesis by (simp add: take_rows_def)
next
  case False
  then show ?thesis by (simp add: take_rows_def)
qed

lemma length_filter_index:
  "length (filter (\<lambda>i. P (xs ! i)) [0..<length xs]) = length (filter P xs)"
proof -
  have "filter P (map (nth xs) [0..<length xs])
      = map (nth xs) (filter (\<lambda>i. P (xs ! i)) [0..<length xs])"
    by (simp add: filter_map comp_def)
  then have "length (filter P (map (nth xs) [0..<length xs]))
      = length (filter (\<lambda>i. P (xs ! i)) [0..<length xs])"
    by simp
  then show ?thesis by (simp add: map_nth)
qed

lemma length_detect: "length (detect valid) = length (filter (\<lambda>v. v = 1) valid)"
  unfolding detect_filter by (rule length_filter_index)

lemma derived_residuals:
  "bind_err (jiang_calibration (Array (map OH d)) (Array (np_log10 (map O32 d))))
     (\<lambda>p. np_sub p (Array (np_log10 (map R23 d))))
   = Inr (Array (map derived_residual d))"
proof -
  have "map2 (-) (map2 jiang_formula (map OH d) (map (log 10) (map O32 d)))
          (map (log 10) (map R23 d)) = map derived_residual d"
    by (induction d) (simp_all add: derived_residual_def)
  then show ?thesis
    by (simp add: jiang_array np_sub_same_length bind_err_def np_log10_def)
qed

lemma composite_residuals:
  "bind_err (jiang_calibration (Array (map (\<lambda>i. log_OH_12 (tab ! i)) idx))
                       (Array (map (\<lambda>i. logO32_Composite (tab ! i)) idx)))
             (\<lambda>p. np_sub p (Array (map (\<lambda>i. logR23_Composite (tab ! i)) idx)))
           = Inr (Array (map (\<lambda>i. composite_residual (tab ! i)) idx))"
  by (simp add: jiang_array np_sub_same_length bind_err_def map2_map_map
      composite_residual_def)

lemma jiang_comparison_run:
  "jiang_comparison validation temp_tab derived derived_mact =
     (if list_all (\<lambda>i. i < length temp_tab) (detect validation)
         \<and> list_all (\<lambda>i. i < length temp_tab) (rlimit validation)
      then Inr (pooled_statistics
                  [Array (map (\<lambda>i. composite_residual (temp_tab ! i)) (detect validation)),
                   Array (map derived_residual derived),
                   Array (map derived_residual derived_mact)])
      else Inl IndexError)"
  using composite_residuals [of temp_tab "detect validation"]
    derived_residuals [of derived] derived_residuals [of derived_mact]
  by (auto simp add: jiang_comparison_def Let_def take_rows_map bind_err_def
      split: sum.splits)

lemma indices_in_range:
  assumes "length validation \<le> length temp_tab"
  shows "list_all (\<lambda>i. i < length temp_tab) (detect validation)
       \<and> list_all (\<lambda>i. i < length temp_tab) (rlimit validation)"
  using assms detect_bound [of _ validation] rlimit_bound [of _ validation]
  by (fastforce simp add: list_all_iff)

text \<open>
  C10. Whenever \<open>jiang_comparison\<close> returns (it does when the validation table has
  no more rows than the table of composite properties; an index past the end raises
  \<^verbatim>\<open>IndexError\<close>), its pooled array holds one residual for each composite row
  with detection flag 1 (in row order), then one for each row of the DEEP2 catalogue,
  then one for each row of the MACT catalogue: its length is the number of flags equal
  to 1 plus the lengths of the two catalogues. The rows with flag 0.5 are read into
  \<open>rlr23\<close>, \<open>rlo32\<close> and \<open>metal_rl\<close> and appear nowhere in the pooled array, of
  which the median, mean and standard deviation are taken.
\<close>

theorem jiang_comparison_pooled:
  "(length validation \<le> length temp_tab \<longrightarrow>
      (\<exists>out. jiang_comparison validation temp_tab derived derived_mact = Inr out))
   \<and> (\<forall>out. jiang_comparison validation temp_tab derived derived_mact = Inr out \<longrightarrow>
        arr_sum out =
            map (\<lambda>i. composite_residual (temp_tab ! i))
              (filter (\<lambda>i. validation ! i = 1) [0..<length validation])
          @ map derived_residual derived
          @ map derived_residual derived_mact
      \<and> length (arr_sum out)
          = length (filter (\<lambda>v. v = 1) validation) + length derived + length derived_mact
      \<and> med0 out = np_median (arr_sum out)
      \<and> avg0 out = np_average (arr_sum out)
      \<and> sig0 out = np_std (arr_sum out))"
proof (intro conjI impI allI)
  assume "length validation \<le> length temp_tab"
  from indices_in_range [OF this]
  show "\<exists>out. jiang_comparison validation temp_tab derived derived_mact = Inr out"
    by (simp add: jiang_comparison_run)
next
  fix out
  assume "jiang_comparison validation temp_tab derived derived_mact = Inr out"
  then have out: "out = pooled_statistics
                  [Array (map (\<lambda>i. composite_residual (temp_tab ! i)) (detect validation)),
                   Array (map derived_residual derived),
                   Array (map derived_residual derived_mact)]"
    by (simp add: jiang_comparison_run split: if_splits)
  show "arr_sum out =
            map (\<lambda>i. composite_residual (temp_tab ! i))
              (filter (\<lambda>i. validation ! i = 1) [0..<length validation])
          @ map derived_residual derived
          @ map derived_residual derived_mact"
    unfolding out
    by (simp add: pooled_statistics_def Let_def np_concatenate_def detect_filter [symmetric])
  show "length (arr_sum out)
          = length (filter (\<lambda>v. v = 1) validation) + length derived + length derived_mact"
    unfolding out
    by (simp add: pooled_statistics_def Let_def np_concatenate_def length_detect)
  show "med0 out = np_median (arr_sum out)"
    unfolding out by (simp add: pooled_statistics_def Let_def)
  show "avg0 out = np_average (arr_sum out)"
    unfolding out by (simp add: pooled_statistics_def Let_def)
  show "sig0 out = np_std (arr_sum out)"
    unfolding out by (simp add: pooled_statistics_def Let_def)
qed

theorem jiang_comparison_pooled_witness:
  "length [1, 0.5, 0, 1 :: real]
     \<le> length [\<lparr>bin_ID = 0, logR23_Composite = 0.8, logO32_Composite = 0.5, log_OH_12 = 8\<rparr>,
               \<lparr>bin_ID = 1, logR23_Composite = 0.9, logO32_Composite = 0.3, log_OH_12 = 8.5\<rparr>,
               \<lparr>bin_ID = 2, logR23_Composite = 0.7, logO32_Composite = 0.1, log_OH_12 = 8.2\<rparr>,
               \<lparr>bin_ID = 3, logR23_Composite = 0.6, logO32_Composite = 0.2, log_OH_12 = 8.4\<rparr>]
   \<and> (\<exists>out. jiang_comparison [1, 0.5, 0, 1]
          [\<lparr>bin_ID = 0, logR23_Composite = 0.8, logO32_Composite = 0.5, log_OH_12 = 8\<rparr>,
           \<lparr>bin_ID = 1, logR23_Composite = 0.9, logO32_Composite = 0.3, log_OH_12 = 8.5\<rparr>,
           \<lparr>bin_ID = 2, logR23_Composite = 0.7, logO32_Composite = 0.1, log_OH_12 = 8.2\<rparr>,
           \<lparr>bin_ID = 3, logR23_Composite = 0.6, logO32_Composite = 0.2, log_OH_12 = 8.4\<rparr>]
          [\<lparr>R23 = 10, O32 = 1, OH = 8\<rparr>]
          [\<lparr>R23 = 1, O32 = 10, OH = 8.5\<rparr>, \<lparr>R23 = 10, O32 = 10, OH = 8\<rparr>] = Inr out
        \<and> length (arr_sum out) = 2 + 1 + 2
        \<and> arr_sum out =
            [composite_residual
               \<lparr>bin_ID = 0, logR23_Composite = 0.8, logO32_Composite = 0.5, log_OH_12 = 8\<rparr>,
             composite_residual
               \<lparr>bin_ID = 3, logR23_Composite = 0.6, logO32_Composite = 0.2, log_OH_12 = 8.4\<rparr>,
             derived_residual \<lparr>R23 = 10, O32 = 1, OH = 8\<rparr>,
             derived_residual \<lparr>R23 = 1, O32 = 10, OH = 8.5\<rparr>,
             derived_residual \<lparr>R23 = 10, O32 = 10, OH = 8\<rparr>])"
proof -
  have idx: "filter (\<lambda>i. [1, 0.5, 0, 1 :: real] ! i = 1) [0..<length [1, 0.5, 0, 1 :: real]] = [0, 3]"
    unfolding detect_filter [symmetric]
    by (simp add: detect_def np_where_def np_equal_def)
  show ?thesis
    using jiang_comparison_pooled [of "[1, 0.5, 0, 1]"
        "[\<lparr>bin_ID = 0, logR23_Composite = 0.8, logO32_Composite = 0.5, log_OH_12 = 8\<rparr>,
          \<lparr>bin_ID = 1, logR23_Composite = 0.9, logO32_Composite = 0.3, log_OH_12 = 8.5\<rparr>,
          \<lparr>bin_ID = 2, logR23_Composite = 0.7, logO32_Composite = 0.1, log_OH_12 = 8.2\<rparr>,
          \<lparr>bin_ID = 3, logR23_Composite = 0.6, logO32_Composite = 0.2, log_OH_12 = 8.4\<rparr>]"
        "[\<lparr>R23 = 10, O32 = 1, OH = 8\<rparr>]"
        "[\<lparr>R23 = 1, O32 = 10, OH = 8.5\<rparr>, \<lparr>R23 = 10, O32 = 10, OH = 8\<rparr>]"]
    unfolding idx
    by auto
qed

end
